theory Spec2Isabelle
  imports Complex_Main "HOL-Library.AList" "HOL-Library.Multiset"
begin

section \<open>Patient records API (main.py)\<close>

text \<open>
  The program keeps patient records in one JSON file, \<^verbatim>\<open>patients.json\<close>: an object
  that maps a patient identifier to an object with the keys name, city, age, gender,
  height, weight, bmi and verdict. Every endpoint loads the whole file, and a mutating
  endpoint writes the whole file back.

  Modelling decisions:
  \<^item> a Python \<^verbatim>\<open>float\<close> is an IEEE binary64 number. A finite one is the rational number
    it denotes (\<open>is_double\<close> singles out the rationals that are binary64 values: 1.5 is
    one, 1.6 is not). Division and \<^verbatim>\<open>round\<close> round the exact result to the nearest
    binary64 number, ties to even (\<open>fl\<close>); the result of a division may be infinite
    (\<open>pyfloat\<close>). For \<^verbatim>\<open>**\<close> Python calls the function \<^verbatim>\<open>pow\<close> of the C library, whose
    result for a square that is no binary64 number depends on the library (either
    neighbour may be returned): the functions that compute a bmi take that function as
    their first argument, written \<open>pw\<close>. The height and the weight of a patient are
    finite: the literals Infinity and NaN, which Python's json module reads, and the sign
    of zero are outside the model;
  \<^item> a key of a Python dict that is handed to pydantic is missing, holds \<^verbatim>\<open>None\<close>, or
    holds a value of the declared type (\<open>jfield\<close>); pydantic's coercion of values of
    another type is outside the model;
  \<^item> the file content is an association list in insertion order, as a Python dict is;
  \<^item> an exception is the left summand of a sum type; an endpoint returns its result
    together with the content of the file afterwards.
\<close>

subsection \<open>Values, errors, responses\<close>

datatype 'a jfield = Absent | Null | Val 'a

datatype error =
    HTTPException nat string
  | ValidationError "string list"
  | ZeroDivisionError
  | OverflowError

datatype response = JSONResponse nat string

subsection \<open>Python floats\<close>

text \<open>Rounding a rational to the nearest integer, a tie to the even one.\<close>

definition round_half_even :: "rat \<Rightarrow> int" where
  "round_half_even x =
     (let f = \<lfloor>x\<rfloor>; d = x - of_int f
      in if d < 1 / 2 then f
         else if 1 / 2 < d then f + 1
         else if even f then f else f + 1)"

text \<open>The number of binary digits of a positive integer, and the powers of two.\<close>

function bit_length :: "int \<Rightarrow> int" where
  "bit_length a = (if a \<le> 0 then 0 else 1 + bit_length (a div 2))"
  by auto
termination
  by (relation "measure nat") auto

declare bit_length.simps [simp del]

function two_to :: "int \<Rightarrow> int" where
  "two_to k = (if k \<le> 0 then 1 else 2 * two_to (k - 1))"
  by auto
termination
  by (relation "measure nat") auto

declare two_to.simps [simp del]

definition pow2 :: "int \<Rightarrow> rat" where
  "pow2 k = (if 0 \<le> k then of_int (two_to k) else 1 / of_int (two_to (- k)))"

text \<open>The binary exponent of a rational \<open>x \<noteq> 0\<close>: the \<open>e\<close> with
  \<open>2^e \<le> |x| < 2^(e+1)\<close>. The difference of the bit lengths of numerator and denominator
  is \<open>e\<close> or \<open>e + 1\<close>.\<close>

definition exponent :: "rat \<Rightarrow> int" where
  "exponent x =
     (let (a, b) = quotient_of \<bar>x\<bar>;
          d = bit_length a - bit_length b
      in if pow2 d \<le> \<bar>x\<bar> then d else d - 1)"

text \<open>The spacing of the binary64 numbers around \<open>x\<close>: 53 significant bits down to the
  exponent -1022, and the fixed spacing \<open>2^-1074\<close> of the subnormal numbers below.\<close>

definition quantum :: "rat \<Rightarrow> rat" where
  "quantum x = pow2 (max (exponent x) (- 1022) - 52)"

text \<open>Rounding to the nearest multiple of the spacing, ties to even: the binary64 number
  nearest to \<open>x\<close>, were the exponent range unbounded above. The result overflows when
  its exponent exceeds 1023.\<close>

definition fl :: "rat \<Rightarrow> rat" where
  "fl x = (if x = 0 then 0 else of_int (round_half_even (x / quantum x)) * quantum x)"

definition overflows :: "rat \<Rightarrow> bool" where
  "overflows y = (y \<noteq> 0 \<and> 1024 \<le> exponent y)"

definition is_double :: "rat \<Rightarrow> bool" where
  "is_double x = (fl x = x \<and> \<not> overflows x)"

text \<open>A float that may be infinite, with the order of Python's comparisons.\<close>

datatype pyfloat = Float rat | PosInf | NegInf

instantiation pyfloat :: linorder
begin

definition less_eq_pyfloat :: "pyfloat \<Rightarrow> pyfloat \<Rightarrow> bool" where
  "less_eq_pyfloat a b =
     (case a of
        NegInf \<Rightarrow> True
      | Float x \<Rightarrow> (case b of NegInf \<Rightarrow> False | Float y \<Rightarrow> x \<le> y | PosInf \<Rightarrow> True)
      | PosInf \<Rightarrow> (case b of PosInf \<Rightarrow> True | _ \<Rightarrow> False))"

definition less_pyfloat :: "pyfloat \<Rightarrow> pyfloat \<Rightarrow> bool" where
  "less_pyfloat a b = (a \<le> b \<and> \<not> b \<le> a)"

instance
  by standard (auto simp: less_eq_pyfloat_def less_pyfloat_def split: pyfloat.splits)

end

text \<open>A float literal of the source, such as \<^verbatim>\<open>24.9\<close>, is the binary64 number nearest to
  it.\<close>

definition float_lit :: "rat \<Rightarrow> pyfloat" where
  "float_lit x = Float (fl x)"

text \<open>The binary64 value of a result \<open>y\<close> that was rounded with an unbounded exponent:
  infinite when it overflows.\<close>

definition to_pyfloat :: "rat \<Rightarrow> pyfloat" where
  "to_pyfloat y =
     (if overflows y then (if 0 < y then PosInf else NegInf) else Float y)"

text \<open>The C library's \<^verbatim>\<open>pow(x, n)\<close> for a finite \<open>x\<close> and a positive integer \<open>n\<close>. A
  correctly rounded one returns the binary64 number nearest to the exact power; a
  faithful one returns one of the two binary64 numbers that enclose it (the power
  itself when it is one).\<close>

type_synonym libm_pow = "rat \<Rightarrow> nat \<Rightarrow> pyfloat"

definition pow_correct :: libm_pow where
  "pow_correct x n = to_pyfloat (fl (x ^ n))"




text \<open>\<^verbatim>\<open>x ** n\<close> for a float \<open>x\<close> and a positive integer \<open>n\<close>: Python calls \<^verbatim>\<open>pow\<close> and
  raises OverflowError when the result is infinite; a result that underflows is
  returned, as zero or as a subnormal number.\<close>

definition float_pow :: "libm_pow \<Rightarrow> rat \<Rightarrow> nat \<Rightarrow> error + rat" where
  "float_pow pw x n =
     (case pw x n of
        Float y \<Rightarrow> Inr y
      | PosInf \<Rightarrow> Inl OverflowError
      | NegInf \<Rightarrow> Inl OverflowError)"

text \<open>\<^verbatim>\<open>a / b\<close> for floats: a zero divisor raises; a quotient that overflows is infinite
  and raises nothing.\<close>

definition float_truediv :: "rat \<Rightarrow> rat \<Rightarrow> error + pyfloat" where
  "float_truediv a b =
     (if b = 0 then Inl ZeroDivisionError else Inr (to_pyfloat (fl (a / b))))"

text \<open>\<^verbatim>\<open>round(x, ndigits)\<close> for a float and \<open>ndigits \<ge> 0\<close>: an infinite \<open>x\<close> is returned as
  it is; a finite one is rounded to the nearest multiple of \<open>10^-ndigits\<close>, a tie of the
  binary value to the even one, and the decimal result is converted to the nearest
  binary64 number.\<close>

fun py_round :: "pyfloat \<Rightarrow> nat \<Rightarrow> pyfloat" where
  "py_round (Float x) ndigits =
     Float (fl (of_int (round_half_even (x * 10 ^ ndigits)) / 10 ^ ndigits))"
| "py_round PosInf ndigits = PosInf"
| "py_round NegInf ndigits = NegInf"

subsection \<open>class Patient\<close>

record Patient =
  id' :: string
  name :: string
  city :: string
  age :: int
  gender :: string
  height :: rat
  weight :: rat

text \<open>\<^verbatim>\<open>return round(self.weight / (self.height ** 2), 2)\<close>: the power may raise
  OverflowError, the division ZeroDivisionError.\<close>

definition bmi :: "libm_pow \<Rightarrow> Patient \<Rightarrow> error + pyfloat" where
  "bmi pw self =
     (case float_pow pw (height self) 2 of
        Inl e \<Rightarrow> Inl e
      | Inr d \<Rightarrow>
          (case float_truediv (weight self) d of
             Inl e \<Rightarrow> Inl e
           | Inr q \<Rightarrow> Inr (py_round q 2)))"

text \<open>The comparisons are between floats; \<^verbatim>\<open>25\<close> is an integer, which Python compares
  with a float exactly.\<close>

definition verdict :: "libm_pow \<Rightarrow> Patient \<Rightarrow> error + string" where
  "verdict pw self =
     (case bmi pw self of
        Inl e \<Rightarrow> Inl e
      | Inr b \<Rightarrow>
          Inr (if b < float_lit 18.5 then ''Underweight''
               else if float_lit 18.5 \<le> b \<and> b < float_lit 24.9 then ''Normal weight''
               else if Float 25 \<le> b \<and> b < float_lit 29.9 then ''Overweight''
               else ''Obesity''))"

text \<open>The dict stored under an identifier: what \<^verbatim>\<open>model_dump(exclude=['id'])\<close> produces
  and what \<^verbatim>\<open>json.load\<close> reads back. A key may be missing from an object of the file.\<close>

record pdict =
  name_s :: "string option"
  city_s :: "string option"
  age_s :: "int option"
  gender_s :: "string option"
  height_s :: "rat option"
  weight_s :: "rat option"
  bmi_s :: "pyfloat option"
  verdict_s :: "string option"

text \<open>\<^verbatim>\<open>self.model_dump(exclude=['id'])\<close>: the fields and the two computed fields.\<close>

definition model_dump :: "libm_pow \<Rightarrow> Patient \<Rightarrow> error + pdict" where
  "model_dump pw self =
     (case bmi pw self of
        Inl e \<Rightarrow> Inl e
      | Inr b \<Rightarrow>
          (case verdict pw self of
             Inl e \<Rightarrow> Inl e
           | Inr v \<Rightarrow>
               Inr \<lparr>name_s = Some (name self), city_s = Some (city self),
                    age_s = Some (age self), gender_s = Some (gender self),
                    height_s = Some (height self), weight_s = Some (weight self),
                    bmi_s = Some b, verdict_s = Some v\<rparr>))"

text \<open>The keyword arguments of \<^verbatim>\<open>Patient(**kwargs)\<close>. The keys bmi and verdict are no
  fields of the class: pydantic ignores them.\<close>

record kwargs =
  id_k :: "string jfield"
  name_k :: "string jfield"
  city_k :: "string jfield"
  age_k :: "int jfield"
  gender_k :: "string jfield"
  height_k :: "rat jfield"
  weight_k :: "rat jfield"
  bmi_k :: "pyfloat jfield"
  verdict_k :: "string jfield"

text \<open>One field of the class: required (\<^verbatim>\<open>Field(...)\<close>), of the declared type, and
  within its constraint.\<close>

fun check :: "('a \<Rightarrow> bool) \<Rightarrow> 'a jfield \<Rightarrow> 'a option" where
  "check ok (Val v) = (if ok v then Some v else None)"
| "check ok Absent = None"
| "check ok Null = None"

fun loc :: "string \<Rightarrow> 'a option \<Rightarrow> string list" where
  "loc f None = [f]"
| "loc f (Some v) = []"

definition Patient_init :: "kwargs \<Rightarrow> error + Patient" where
  "Patient_init kw =
     (let i = check (\<lambda>v. True) (id_k kw);
          n = check (\<lambda>v. True) (name_k kw);
          c = check (\<lambda>v. True) (city_k kw);
          a = check (\<lambda>v. 0 < v \<and> v < 120) (age_k kw);
          g = check (\<lambda>v. v \<in> set [''male'', ''female'', ''other'']) (gender_k kw);
          h = check (\<lambda>v. 0 < v) (height_k kw);
          w = check (\<lambda>v. 0 < v) (weight_k kw)
      in case (i, n, c, a, g, h, w) of
           (Some i', Some n', Some c', Some a', Some g', Some h', Some w') \<Rightarrow>
             Inr \<lparr>id' = i', name = n', city = c', age = a', gender = g',
                  height = h', weight = w'\<rparr>
         | _ \<Rightarrow>
             Inl (ValidationError
               (loc ''id'' i @ loc ''name'' n @ loc ''city'' c @ loc ''age'' a
                @ loc ''gender'' g @ loc ''height'' h @ loc ''weight'' w)))"

subsection \<open>class PatientUpdate\<close>

text \<open>Every field is optional with default \<^verbatim>\<open>None\<close>: \<open>Absent\<close> is a field the request
  did not set, \<open>Null\<close> one it set to \<^verbatim>\<open>None\<close>. \<^verbatim>\<open>model_dump(exclude_unset=True)\<close> keeps
  the fields that were set.\<close>

record PatientUpdate =
  name_u :: "string jfield"
  city_u :: "string jfield"
  age_u :: "int jfield"
  gender_u :: "string jfield"
  height_u :: "rat jfield"
  weight_u :: "rat jfield"

subsection \<open>The file\<close>

type_synonym store = "(string \<times> pdict) list"

definition load_data :: "store \<Rightarrow> store" where
  "load_data disk = disk"

definition save_data :: "store \<Rightarrow> store \<Rightarrow> store" where
  "save_data data disk = data"

subsection \<open>GET /patient and GET /patient/{patient_id}\<close>

definition view_patient_all :: "store \<Rightarrow> (error + store) \<times> store" where
  "view_patient_all disk = (let data = load_data disk in (Inr data, disk))"

definition view_patient :: "string \<Rightarrow> store \<Rightarrow> (error + pdict) \<times> store" where
  "view_patient patient_id disk =
     (let data = load_data disk
      in case map_of data patient_id of
           Some r \<Rightarrow> (Inr r, disk)
         | None \<Rightarrow> (Inl (HTTPException 404 ''Patient not found''), disk))"

subsection \<open>GET /sort\<close>

definition valid_fields :: "string list" where
  "valid_fields = [''height'', ''weight'', ''bmi'']"

text \<open>Python's \<^verbatim>\<open>repr\<close> of a list of strings, as the f-string of the error detail
  prints it.\<close>

fun join :: "string \<Rightarrow> string list \<Rightarrow> string" where
  "join sep [] = []"
| "join sep [x] = x"
| "join sep (x # y # ys) = x @ sep @ join sep (y # ys)"

definition repr_list :: "string list \<Rightarrow> string" where
  "repr_list xs = ''['' @ join '', '' (map (\<lambda>x. [CHR 0x27] @ x @ [CHR 0x27]) xs) @ '']''"

text \<open>\<^verbatim>\<open>x.get(sort_by, 0)\<close> for the three keys that pass the check of \<^verbatim>\<open>sort_by\<close>.\<close>

definition get_num :: "pdict \<Rightarrow> string \<Rightarrow> pyfloat \<Rightarrow> pyfloat" where
  "get_num x key dflt =
     (case (if key = ''height'' then map_option Float (height_s x)
            else if key = ''weight'' then map_option Float (weight_s x)
            else if key = ''bmi'' then bmi_s x
            else None) of
        Some v \<Rightarrow> v
      | None \<Rightarrow> dflt)"

text \<open>\<^verbatim>\<open>sorted(xs, key=key, reverse=reverse)\<close>: a stable sort; with \<^verbatim>\<open>reverse\<close> the list
  is reversed, sorted and reversed again, so equal keys keep their order.\<close>

definition py_sorted :: "('a \<Rightarrow> 'k :: linorder) \<Rightarrow> bool \<Rightarrow> 'a list \<Rightarrow> 'a list" where
  "py_sorted key reverse xs =
     (if reverse then rev (sort_key key (rev xs)) else sort_key key xs)"

definition sort_patient ::
  "string \<Rightarrow> string option \<Rightarrow> store \<Rightarrow> (error + pdict list) \<times> store" where
  "sort_patient sort_by order_q disk =
     (let order = (case order_q of None \<Rightarrow> ''asc'' | Some s \<Rightarrow> s)
      in if sort_by \<notin> set valid_fields
         then (Inl (HTTPException 400
                 (''Invalid sort please select from '' @ repr_list valid_fields)), disk)
         else if order \<notin> set [''asc'', ''desc'']
         then (Inl (HTTPException 400 ''Order should be asc or desc''), disk)
         else
           (let data = load_data disk;
                sorted_order = (if order = ''desc'' then True else False);
                sorted_data =
                  py_sorted (\<lambda>x. get_num x sort_by (Float 0)) sorted_order (map snd data)
            in (Inr sorted_data, disk)))"

subsection \<open>POST /create\<close>

definition create_patient :: "libm_pow \<Rightarrow> Patient \<Rightarrow> store \<Rightarrow> (error + response) \<times> store" where
  "create_patient pw patient disk =
     (let data = load_data disk
      in if map_of data (id' patient) \<noteq> None
         then (Inl (HTTPException 400 ''Patient with this ID already exists''), disk)
         else
           (case model_dump pw patient of
              Inl e \<Rightarrow> (Inl e, disk)
            | Inr d \<Rightarrow>
                (Inr (JSONResponse 201 ''Patient created successfully''),
                 save_data (AList.update (id' patient) d data) disk)))"

text \<open>The request: FastAPI builds the \<^verbatim>\<open>Patient\<close> from the body before it calls the
  endpoint.\<close>

definition create_request :: "libm_pow \<Rightarrow> kwargs \<Rightarrow> store \<Rightarrow> (error + response) \<times> store" where
  "create_request pw body disk =
     (case Patient_init body of
        Inl e \<Rightarrow> (Inl e, disk)
      | Inr patient \<Rightarrow> create_patient pw patient disk)"

subsection \<open>PUT /update/{patient_id}\<close>

text \<open>\<^verbatim>\<open>existing_patient[key] = value\<close> for one key of \<^verbatim>\<open>update_data\<close>.\<close>

fun assign :: "'a jfield \<Rightarrow> 'a jfield \<Rightarrow> 'a jfield" where
  "assign old Absent = old"
| "assign old Null = Null"
| "assign old (Val v) = Val v"

fun of_key :: "'a option \<Rightarrow> 'a jfield" where
  "of_key None = Absent"
| "of_key (Some v) = Val v"

text \<open>The loop over \<^verbatim>\<open>update_data.items()\<close>, one assignment for each field of
  \<^verbatim>\<open>PatientUpdate\<close>, followed by \<^verbatim>\<open>existing_patient['id'] = patient_id\<close>.\<close>

definition merge_update :: "string \<Rightarrow> pdict \<Rightarrow> PatientUpdate \<Rightarrow> kwargs" where
  "merge_update patient_id existing_patient update_data =
     \<lparr>id_k = Val patient_id,
      name_k = assign (of_key (name_s existing_patient)) (name_u update_data),
      city_k = assign (of_key (city_s existing_patient)) (city_u update_data),
      age_k = assign (of_key (age_s existing_patient)) (age_u update_data),
      gender_k = assign (of_key (gender_s existing_patient)) (gender_u update_data),
      height_k = assign (of_key (height_s existing_patient)) (height_u update_data),
      weight_k = assign (of_key (weight_s existing_patient)) (weight_u update_data),
      bmi_k = of_key (bmi_s existing_patient),
      verdict_k = of_key (verdict_s existing_patient)\<rparr>"

definition update_patient ::
  "libm_pow \<Rightarrow> string \<Rightarrow> PatientUpdate \<Rightarrow> store \<Rightarrow> (error + response) \<times> store" where
  "update_patient pw patient_id patient_update disk =
     (let data = load_data disk
      in case map_of data patient_id of
           None \<Rightarrow> (Inl (HTTPException 404 ''Patient not found''), disk)
         | Some existing_patient \<Rightarrow>
             (case Patient_init (merge_update patient_id existing_patient patient_update) of
                Inl e \<Rightarrow> (Inl e, disk)
              | Inr patient_pydantic_obj \<Rightarrow>
                  (case model_dump pw patient_pydantic_obj of
                     Inl e \<Rightarrow> (Inl e, disk)
                   | Inr d \<Rightarrow>
                       (Inr (JSONResponse 200 ''Patient updated successfully''),
                        save_data (AList.update patient_id d data) disk))))"

subsection \<open>DELETE /delete/{patient_id}\<close>

definition delete_patient :: "string \<Rightarrow> store \<Rightarrow> (error + response) \<times> store" where
  "delete_patient patient_id disk =
     (let data = load_data disk
      in if map_of data patient_id = None
         then (Inl (HTTPException 404 ''Patient not found''), disk)
         else (Inr (JSONResponse 200 ''Patient deleted successfully''),
               save_data (AList.delete patient_id data) disk))"

subsection \<open>The API as a transition system\<close>

text \<open>One mutating request, and the content of the file after it and after a sequence
  of them.\<close>

datatype request = Create kwargs | Update string PatientUpdate | Delete string

fun handle :: "libm_pow \<Rightarrow> request \<Rightarrow> store \<Rightarrow> store" where
  "handle pw (Create body) disk = snd (create_request pw body disk)"
| "handle pw (Update patient_id patient_update) disk =
     snd (update_patient pw patient_id patient_update disk)"
| "handle pw (Delete patient_id) disk = snd (delete_patient patient_id disk)"

fun run :: "libm_pow \<Rightarrow> request list \<Rightarrow> store \<Rightarrow> store" where
  "run pw [] disk = disk"
| "run pw (q # qs) disk = run pw qs (handle pw q disk)"

subsection \<open>The specification's vocabulary\<close>


text \<open>The bucket table of the specification (section 4.2), in its words: below 18.5,
  from 18.5 to below 24.9, from 25 to below 29.9, and everything else. The bounds are
  the floats that the literals denote.\<close>

definition bucket_table :: "pyfloat \<Rightarrow> string" where
  "bucket_table b =
     (if b < float_lit 18.5 then ''Underweight''
      else if float_lit 18.5 \<le> b \<and> b < float_lit 24.9 then ''Normal weight''
      else if Float 25 \<le> b \<and> b < float_lit 29.9 then ''Overweight''
      else ''Obesity'')"


text \<open>The field constraints of the specification (section 3), name and city non-empty
  among them, and the constraints that the class \<^verbatim>\<open>Patient\<close> declares, which put no
  condition on the two strings.\<close>

definition spec_field_constraints :: "pdict \<Rightarrow> bool" where
  "spec_field_constraints d =
     ((case name_s d of Some n \<Rightarrow> n \<noteq> [] | None \<Rightarrow> False)
      \<and> (case city_s d of Some c \<Rightarrow> c \<noteq> [] | None \<Rightarrow> False)
      \<and> (case age_s d of Some a \<Rightarrow> 0 < a \<and> a < 120 | None \<Rightarrow> False)
      \<and> (case gender_s d of
            Some g \<Rightarrow> g \<in> set [''male'', ''female'', ''other''] | None \<Rightarrow> False)
      \<and> (case height_s d of Some h \<Rightarrow> 0 < h | None \<Rightarrow> False)
      \<and> (case weight_s d of Some w \<Rightarrow> 0 < w | None \<Rightarrow> False))"

definition field_constraints :: "pdict \<Rightarrow> bool" where
  "field_constraints d =
     (name_s d \<noteq> None \<and> city_s d \<noteq> None
      \<and> (case age_s d of Some a \<Rightarrow> 0 < a \<and> a < 120 | None \<Rightarrow> False)
      \<and> (case gender_s d of
            Some g \<Rightarrow> g \<in> set [''male'', ''female'', ''other''] | None \<Rightarrow> False)
      \<and> (case height_s d of Some h \<Rightarrow> 0 < h | None \<Rightarrow> False)
      \<and> (case weight_s d of Some w \<Rightarrow> 0 < w | None \<Rightarrow> False))"

text \<open>A patient of a given height and weight; bmi and verdict depend on no other field.
  The stored bmi and verdict are consistent when they are the ones that the class
  computes from the stored height and weight.\<close>

definition measured :: "rat \<Rightarrow> rat \<Rightarrow> Patient" where
  "measured h w =
     \<lparr>id' = [], name = [], city = [], age = 0, gender = [], height = h, weight = w\<rparr>"

definition derived_consistent :: "libm_pow \<Rightarrow> pdict \<Rightarrow> bool" where
  "derived_consistent pw d =
     (case (height_s d, weight_s d) of
        (Some h, Some w) \<Rightarrow>
          (case bmi pw (measured h w) of
             Inr b \<Rightarrow> bmi_s d = Some b \<and> verdict_s d = Some (bucket_table b)
           | Inl e \<Rightarrow> False)
      | _ \<Rightarrow> False)"

subsection \<open>Example data\<close>

text \<open>All heights and weights of the examples are binary64 numbers.\<close>

definition example_patient :: Patient where
  "example_patient =
     \<lparr>id' = ''P001'', name = ''Asha'', city = ''Pune'', age = 30, gender = ''female'',
      height = 1.5, weight = 54\<rparr>"

definition asha :: pdict where
  "asha =
     \<lparr>name_s = Some ''Asha'', city_s = Some ''Pune'', age_s = Some 30,
      gender_s = Some ''female'', height_s = Some 1.5, weight_s = Some 54,
      bmi_s = Some (Float 24), verdict_s = Some ''Normal weight''\<rparr>"

definition ravi :: pdict where
  "ravi =
     \<lparr>name_s = Some ''Ravi'', city_s = Some ''Delhi'', age_s = Some 41,
      gender_s = Some ''male'', height_s = Some 1.75, weight_s = Some 76.5625,
      bmi_s = Some (Float 25), verdict_s = Some ''Overweight''\<rparr>"

definition meera :: pdict where
  "meera =
     \<lparr>name_s = Some ''Meera'', city_s = Some ''Kochi'', age_s = Some 27,
      gender_s = Some ''other'', height_s = Some 1.625, weight_s = Some 66.015625,
      bmi_s = Some (Float 25), verdict_s = Some ''Overweight''\<rparr>"

definition example_file :: store where
  "example_file = [(''P001'', asha), (''P002'', ravi), (''P003'', meera)]"

text \<open>An update of the weight alone, and the first record after it.\<close>

definition weight_only :: PatientUpdate where
  "weight_only =
     \<lparr>name_u = Absent, city_u = Absent, age_u = Absent, gender_u = Absent,
      height_u = Absent, weight_u = Val 72\<rparr>"

definition asha_72 :: pdict where
  "asha_72 =
     \<lparr>name_s = Some ''Asha'', city_s = Some ''Pune'', age_s = Some 30,
      gender_s = Some ''female'', height_s = Some 1.5, weight_s = Some 72,
      bmi_s = Some (Float 32), verdict_s = Some ''Obesity''\<rparr>"

text \<open>Patients at the edges of the arithmetic: a quotient of 24.9375, which rounds to
  24.94, between the second and the third bucket; a weight that is the float 24.9, at
  height 1; an exact quotient of 24.895, whose binary64 value lies below it and rounds
  to 24.89; a quotient of 0.125, a tie that rounds to the even 0.12; a height of
  \<open>2^-600\<close>, whose square underflows to zero, and the request body that asks for such a
  patient; a height of \<open>2^600\<close>, whose square overflows; and a quotient that overflows.\<close>

definition gap_patient :: Patient where
  "gap_patient =
     \<lparr>id' = ''P005'', name = ''Kiran'', city = ''Agra'', age = 52, gender = ''male'',
      height = 1, weight = 24.9375\<rparr>"

definition edge_patient :: Patient where
  "edge_patient =
     \<lparr>id' = ''P006'', name = ''Esha'', city = ''Goa'', age = 33, gender = ''female'',
      height = 1, weight = 3504363460047667 / 140737488355328\<rparr>"

definition tie_patient :: Patient where
  "tie_patient =
     \<lparr>id' = ''P007'', name = ''Tara'', city = ''Indore'', age = 44, gender = ''female'',
      height = 2.5, weight = 155.59375\<rparr>"


definition tiny_patient :: Patient where
  "tiny_patient =
     \<lparr>id' = ''P009'', name = ''Tanvi'', city = ''Leh'', age = 20, gender = ''other'',
      height = pow2 (- 600), weight = 1\<rparr>"

definition tiny_body :: kwargs where
  "tiny_body =
     \<lparr>id_k = Val ''P009'', name_k = Val ''Tanvi'', city_k = Val ''Leh'', age_k = Val 20,
      gender_k = Val ''other'', height_k = Val (pow2 (- 600)), weight_k = Val 1,
      bmi_k = Absent, verdict_k = Absent\<rparr>"

definition huge_patient :: Patient where
  "huge_patient =
     \<lparr>id' = ''P010'', name = ''Hema'', city = ''Puri'', age = 20, gender = ''female'',
      height = pow2 600, weight = 1\<rparr>"

definition dense_patient :: Patient where
  "dense_patient =
     \<lparr>id' = ''P011'', name = ''Dev'', city = ''Ooty'', age = 20, gender = ''male'',
      height = pow2 (- 300), weight = pow2 600\<rparr>"

text \<open>A request body with an empty name and an empty city, the record it stores, and a
  body that breaks the four numeric and enumeration constraints at once.\<close>

definition unnamed_body :: kwargs where
  "unnamed_body =
     \<lparr>id_k = Val ''P004'', name_k = Val '''', city_k = Val '''', age_k = Val 35,
      gender_k = Val ''male'', height_k = Val 2, weight_k = Val 80,
      bmi_k = Absent, verdict_k = Absent\<rparr>"

definition unnamed_record :: pdict where
  "unnamed_record =
     \<lparr>name_s = Some '''', city_s = Some '''', age_s = Some 35, gender_s = Some ''male'',
      height_s = Some 2, weight_s = Some 80, bmi_s = Some (Float 20),
      verdict_s = Some ''Normal weight''\<rparr>"

definition bad_body :: kwargs where
  "bad_body =
     \<lparr>id_k = Val ''P006'', name_k = Val ''Noor'', city_k = Val ''Surat'', age_k = Val 0,
      gender_k = Val ''unknown'', height_k = Val 0, weight_k = Val (- 1),
      bmi_k = Absent, verdict_k = Absent\<rparr>"

section \<open>Properties\<close>

subsection \<open>Auxiliary facts about the floats\<close>

lemma two_to_power: "two_to k = 2 ^ nat k"
proof (induction k rule: two_to.induct)
  case (1 k)
  show ?case
  proof (cases "k \<le> 0")
    case True
    then show ?thesis by (simp add: two_to.simps)
  next
    case False
    then have "nat k = Suc (nat (k - 1))" by simp
    with False 1 show ?thesis
      by (simp add: two_to.simps [of k])
  qed
qed

lemma pow2_powi: "pow2 k = 2 powi k"
  by (simp add: pow2_def two_to_power power_int_def field_simps)

lemma pow2_nat: "0 \<le> k \<Longrightarrow> pow2 k = 2 ^ nat k"
  by (simp add: pow2_def two_to_power)

lemma pow2_pos: "0 < pow2 k"
  by (simp add: pow2_powi)

lemma pow2_add: "pow2 (j + k) = pow2 j * pow2 k"
  by (simp add: pow2_powi power_int_add)

lemma pow2_diff: "pow2 (j - k) = pow2 j / pow2 k"
  by (simp add: pow2_powi power_int_diff)

lemma pow2_mono: "j \<le> k \<Longrightarrow> pow2 j \<le> pow2 k"
  by (simp add: pow2_powi power_int_increasing)

lemma pow2_strict_mono: "j < k \<Longrightarrow> pow2 j < pow2 k"
  by (simp add: pow2_powi power_int_strict_increasing)

lemma pow2_less_iff: "pow2 j < pow2 k \<longleftrightarrow> j < k"
  by (metis pow2_strict_mono pow2_mono not_less)

lemma pow2_square: "(pow2 k)\<^sup>2 = pow2 (2 * k)"
  using pow2_add [of k k] by (simp add: power2_eq_square)

lemma pow2_52: "pow2 e / pow2 (e - 52) = of_int (2 ^ 52)"
  using pow2_diff [of e "e - 52"] by (simp add: pow2_nat)

text \<open>The bit length brackets a positive integer between two powers of two, and so
  the exponent brackets a rational.\<close>

lemma bit_length_bounds:
  "0 < a \<Longrightarrow> 2 ^ nat (bit_length a - 1) \<le> a \<and> a < 2 ^ nat (bit_length a) \<and> 0 < bit_length a"
proof (induction a rule: bit_length.induct)
  case (1 a)
  show ?case
  proof (cases "a div 2 = 0")
    case True
    with 1(2) have "a = 1" by presburger
    then show ?thesis
      by (simp add: bit_length.simps [of 1] bit_length.simps [of 0])
  next
    case False
    with 1(2) have pos: "0 < a div 2" and a: "\<not> a \<le> 0" by presburger+
    from 1(1) [OF a pos] have ih: "2 ^ nat (bit_length (a div 2) - 1) \<le> a div 2"
      "a div 2 < 2 ^ nat (bit_length (a div 2))" "0 < bit_length (a div 2)"
      by auto
    have bl: "bit_length a = 1 + bit_length (a div 2)"
      using a by (simp add: bit_length.simps [of a])
    from ih(3) have n: "nat (bit_length (a div 2)) = Suc (nat (bit_length (a div 2) - 1))"
      by simp
    have "2 * 2 ^ nat (bit_length (a div 2) - 1) \<le> 2 * (a div 2)"
      using ih(1) by simp
    also have "\<dots> \<le> a" by presburger
    finally have lo: "2 ^ nat (bit_length a - 1) \<le> a"
      using n by (simp add: bl)
    have "a < 2 * (a div 2) + 2" by presburger
    also have "\<dots> \<le> 2 * 2 ^ nat (bit_length (a div 2))"
      using ih(2) by simp
    finally have hi: "a < 2 ^ nat (bit_length a)"
      using ih(3) by (simp add: bl nat_add_distrib)
    from lo hi ih(3) show ?thesis by (simp add: bl)
  qed
qed

lemma exponent_bounds:
  assumes "x \<noteq> 0"
  shows "pow2 (exponent x) \<le> \<bar>x\<bar> \<and> \<bar>x\<bar> < pow2 (exponent x + 1)"
proof -
  obtain a b where q: "quotient_of \<bar>x\<bar> = (a, b)"
    by (cases "quotient_of \<bar>x\<bar>")
  then have b: "0 < b" and x: "\<bar>x\<bar> = of_int a / of_int b"
    by (simp_all add: quotient_of_denom_pos quotient_of_div)
  from assms have "0 < \<bar>x\<bar>" by simp
  with x b have a: "0 < a"
    by (simp add: zero_less_divide_iff)
  let ?la = "bit_length a" and ?lb = "bit_length b"
  let ?d = "?la - ?lb"
  from bit_length_bounds [OF a] have "(of_int (2 ^ nat (?la - 1)) :: rat) \<le> of_int a"
    "(of_int a :: rat) < of_int (2 ^ nat ?la)" and lapos: "0 < ?la"
    by (simp_all only: of_int_le_iff of_int_less_iff)
  with lapos have la: "pow2 (?la - 1) \<le> of_int a" "of_int a < pow2 ?la"
    by (simp_all add: pow2_nat)
  from bit_length_bounds [OF b] have "(of_int (2 ^ nat (?lb - 1)) :: rat) \<le> of_int b"
    "(of_int b :: rat) < of_int (2 ^ nat ?lb)" and lbpos: "0 < ?lb"
    by (simp_all only: of_int_le_iff of_int_less_iff)
  with lbpos have lb: "pow2 (?lb - 1) \<le> of_int b" "of_int b < pow2 ?lb"
    by (simp_all add: pow2_nat)
  have apos: "(0 :: rat) < of_int a" and bpos: "(0 :: rat) < of_int b"
    using a b by simp_all
  have "of_int a / of_int b < pow2 ?la / pow2 (?lb - 1)"
    by (rule frac_less) (use apos la(2) pow2_pos lb(1) in simp_all)
  then have hi: "\<bar>x\<bar> < pow2 (?d + 1)"
    by (simp add: x pow2_diff [symmetric] algebra_simps)
  have "pow2 (?la - 1) / pow2 ?lb < of_int a / of_int b"
    by (rule frac_less2) (use bpos la(1) pow2_pos lb(2) in simp_all)
  then have lo: "pow2 (?d - 1) < \<bar>x\<bar>"
    by (simp add: x pow2_diff [symmetric] algebra_simps)
  show ?thesis
    using hi lo q by (auto simp: exponent_def Let_def not_le)
qed

lemma exponent_unique:
  assumes "pow2 e \<le> \<bar>x\<bar>" and "\<bar>x\<bar> < pow2 (e + 1)"
  shows "exponent x = e"
proof -
  from assms(1) pow2_pos [of e] have "x \<noteq> 0" by auto
  from exponent_bounds [OF this] assms
  have "pow2 e < pow2 (exponent x + 1)" "pow2 (exponent x) < pow2 (e + 1)"
    by linarith+
  then show ?thesis
    by (simp add: pow2_less_iff)
qed

lemma exponent_ge: "pow2 k \<le> \<bar>y\<bar> \<Longrightarrow> k \<le> exponent y"
proof -
  assume k: "pow2 k \<le> \<bar>y\<bar>"
  with pow2_pos [of k] have "y \<noteq> 0" by auto
  from exponent_bounds [OF this] k have "pow2 k < pow2 (exponent y + 1)"
    by linarith
  then show ?thesis by (simp add: pow2_less_iff)
qed

lemma exponent_pow2: "exponent (pow2 k) = k"
  using pow2_pos [of k] by (intro exponent_unique) (simp_all add: pow2_less_iff)

lemma quantum_ge: "pow2 (- 1074) \<le> quantum x"
  unfolding quantum_def by (rule pow2_mono) simp

lemma quantum_pos: "0 < quantum x"
  by (simp add: quantum_def pow2_pos)



lemma round_half_even_ge: "of_int m \<le> y \<Longrightarrow> m \<le> round_half_even y"
proof -
  assume "of_int m \<le> y"
  then have "m \<le> \<lfloor>y\<rfloor>" by (simp add: le_floor_iff)
  then show ?thesis
    by (auto simp: round_half_even_def Let_def)
qed

lemma round_half_even_of_int: "round_half_even (of_int m) = m"
  by (simp add: round_half_even_def)

lemma round_half_even_small: "\<bar>y\<bar> < 1 / 2 \<Longrightarrow> round_half_even y = 0"
proof -
  assume small: "\<bar>y\<bar> < 1 / 2"
  show ?thesis
  proof (cases "0 \<le> y")
    case True
    with small have "\<lfloor>y\<rfloor> = 0" by (simp add: floor_unique)
    with small True show ?thesis by (simp add: round_half_even_def)
  next
    case False
    with small have "\<lfloor>y\<rfloor> = - 1" by (intro floor_unique) simp_all
    with small False show ?thesis by (simp add: round_half_even_def)
  qed
qed


text \<open>Rounding to binary64: what underflows to zero, what overflows, and the powers of
  two, which are exact.\<close>

lemma fl_underflow:
  assumes "\<bar>x\<bar> < pow2 (- 1075)"
  shows "fl x = 0"
proof (cases "x = 0")
  case True
  then show ?thesis by (simp add: fl_def)
next
  case False
  have "\<bar>x / quantum x\<bar> = \<bar>x\<bar> / quantum x"
    using quantum_pos [of x] by simp
  also have "\<dots> \<le> \<bar>x\<bar> / pow2 (- 1074)"
    using quantum_ge [of x] pow2_pos [of "- 1074"] by (simp add: frac_le)
  also have "\<dots> < pow2 (- 1075) / pow2 (- 1074)"
    using assms pow2_pos [of "- 1074"] by (simp add: divide_strict_right_mono)
  also have "\<dots> = 1 / 2"
    by (simp add: pow2_diff [symmetric] pow2_powi)
  finally have "round_half_even (x / quantum x) = 0"
    by (rule round_half_even_small)
  then show ?thesis by (simp add: fl_def)
qed

lemma fl_ge_pow2:
  assumes "0 < x" and "- 1022 \<le> exponent x"
  shows "pow2 (exponent x) \<le> fl x"
proof -
  let ?e = "exponent x"
  from assms have nz: "x \<noteq> 0" by simp
  from exponent_bounds [OF nz] assms have lo: "pow2 ?e \<le> x" by simp
  from assms(2) have q: "quantum x = pow2 (?e - 52)" by (simp add: quantum_def max_def)
  have "(of_int (2 ^ 52) :: rat) = pow2 ?e / pow2 (?e - 52)"
    by (simp only: pow2_52)
  also have "\<dots> \<le> x / quantum x"
    using lo pow2_pos [of "?e - 52"] by (simp add: q divide_right_mono)
  finally have "2 ^ 52 \<le> round_half_even (x / quantum x)"
    by (rule round_half_even_ge)
  then have "(of_int (2 ^ 52) :: rat) \<le> of_int (round_half_even (x / quantum x))"
    by (simp only: of_int_le_iff)
  then have "of_int (2 ^ 52) * pow2 (?e - 52) \<le> fl x"
    using nz pow2_pos [of "?e - 52"] by (simp add: fl_def q)
  moreover have "of_int (2 ^ 52) * pow2 (?e - 52) = pow2 ?e"
    using pow2_52 [of ?e] pow2_pos [of "?e - 52"] by (simp add: field_simps)
  ultimately show ?thesis by simp
qed

lemma fl_overflows:
  assumes "pow2 1024 \<le> x"
  shows "overflows (fl x) \<and> 0 < fl x"
proof -
  from assms pow2_pos [of 1024] have pos: "0 < x" by linarith
  from assms pos have e: "1024 \<le> exponent x"
    by (intro exponent_ge) simp
  with pos have "pow2 (exponent x) \<le> fl x"
    by (intro fl_ge_pow2) simp_all
  with e pow2_mono [of 1024 "exponent x"] have big: "pow2 1024 \<le> fl x"
    by linarith
  with pow2_pos [of 1024] have "0 < fl x" "pow2 1024 \<le> \<bar>fl x\<bar>"
    by linarith+
  then show ?thesis
    by (simp add: overflows_def exponent_ge)
qed

lemma fl_pow2:
  assumes "- 1074 \<le> k"
  shows "fl (pow2 k) = pow2 k"
proof -
  let ?j = "k - (max k (- 1022) - 52)"
  from assms have j: "0 \<le> ?j" by simp
  have q: "quantum (pow2 k) = pow2 (max k (- 1022) - 52)"
    by (simp add: quantum_def exponent_pow2)
  have "pow2 k / quantum (pow2 k) = pow2 ?j"
    by (simp only: q pow2_diff)
  also have "\<dots> = of_int (2 ^ nat ?j)"
    using j by (simp only: pow2_nat) simp
  finally have "round_half_even (pow2 k / quantum (pow2 k)) = 2 ^ nat ?j"
    by (simp only: round_half_even_of_int)
  then have "fl (pow2 k) = of_int (2 ^ nat ?j) * pow2 (max k (- 1022) - 52)"
    using pow2_pos [of k] by (simp add: fl_def q)
  also have "\<dots> = pow2 ?j * pow2 (max k (- 1022) - 52)"
    using j by (simp only: pow2_nat) simp
  also have "\<dots> = pow2 k"
    by (simp only: pow2_add [symmetric]) simp
  finally show ?thesis .
qed

lemma pow2_not_overflows: "k < 1024 \<Longrightarrow> \<not> overflows (pow2 k)"
  by (simp add: overflows_def exponent_pow2)

lemma pow2_is_double: "- 1074 \<le> k \<Longrightarrow> k < 1024 \<Longrightarrow> is_double (pow2 k)"
  by (simp add: is_double_def fl_pow2 pow2_not_overflows)




text \<open>The three patients at the edges of the range.\<close>

lemma tiny_square: "pow_correct (pow2 (- 600)) 2 = Float 0"
proof -
  have "\<bar>pow2 (- 1200)\<bar> < pow2 (- 1075)"
    using pow2_pos [of "- 1200"] by (simp add: pow2_less_iff)
  then have "fl ((pow2 (- 600))\<^sup>2) = 0"
    by (simp add: pow2_square fl_underflow)
  then show ?thesis
    by (simp add: pow_correct_def to_pyfloat_def overflows_def)
qed

lemma huge_square: "pow_correct (pow2 600) 2 = PosInf"
proof -
  have "pow2 1024 \<le> pow2 1200"
    by (rule pow2_mono) simp
  then have "overflows (fl (pow2 1200)) \<and> 0 < fl (pow2 1200)"
    by (rule fl_overflows)
  then show ?thesis
    by (simp add: pow_correct_def to_pyfloat_def pow2_square)
qed

lemma dense_square: "pow_correct (pow2 (- 300)) 2 = Float (pow2 (- 600))"
  by (simp add: pow_correct_def to_pyfloat_def pow2_square fl_pow2 pow2_not_overflows)

lemma dense_quotient: "to_pyfloat (fl (pow2 600 / pow2 (- 600))) = PosInf"
proof -
  have "pow2 600 / pow2 (- 600) = pow2 1200"
    using pow2_diff [of 600 "- 600"] by simp
  moreover have "pow2 1024 \<le> pow2 1200"
    by (rule pow2_mono) simp
  then have "overflows (fl (pow2 1200)) \<and> 0 < fl (pow2 1200)"
    by (rule fl_overflows)
  ultimately show ?thesis
    by (simp add: to_pyfloat_def)
qed

lemma pow2_neq_0: "pow2 k \<noteq> 0"
  using pow2_pos [of k] by simp

lemma tiny_bmi: "bmi pow_correct tiny_patient = Inl ZeroDivisionError"
  by (simp add: bmi_def float_pow_def float_truediv_def tiny_patient_def tiny_square)

lemma huge_bmi: "bmi pow_correct huge_patient = Inl OverflowError"
  by (simp add: bmi_def float_pow_def huge_patient_def huge_square)

lemma dense_bmi: "bmi pow_correct dense_patient = Inr PosInf"
  by (simp add: bmi_def float_pow_def float_truediv_def dense_patient_def dense_square
      dense_quotient pow2_neq_0)

subsection \<open>Auxiliary facts about the model\<close>

lemma check_Some: "check ok x = Some v \<longleftrightarrow> x = Val v \<and> ok v"
  by (cases x) auto

lemma Patient_init_Inr:
  "Patient_init kw = Inr p \<longleftrightarrow>
     (\<exists>i n c a g h w.
        id_k kw = Val i \<and> name_k kw = Val n \<and> city_k kw = Val c \<and> age_k kw = Val a
        \<and> gender_k kw = Val g \<and> height_k kw = Val h \<and> weight_k kw = Val w
        \<and> 0 < a \<and> a < 120 \<and> g \<in> {''male'', ''female'', ''other''} \<and> 0 < h \<and> 0 < w
        \<and> p = \<lparr>id' = i, name = n, city = c, age = a, gender = g, height = h, weight = w\<rparr>)"
  unfolding Patient_init_def Let_def
  by (auto simp: check_Some split: option.splits)

lemma age_named:
  "check (\<lambda>v. 0 < v \<and> v < 120) (age_k kw) = None \<Longrightarrow>
   \<exists>fs. Patient_init kw = Inl (ValidationError fs) \<and> ''age'' \<in> set fs"
  unfolding Patient_init_def Let_def by (simp split: option.splits)

lemma gender_named:
  "check (\<lambda>v. v \<in> set [''male'', ''female'', ''other'']) (gender_k kw) = None \<Longrightarrow>
   \<exists>fs. Patient_init kw = Inl (ValidationError fs) \<and> ''gender'' \<in> set fs"
  unfolding Patient_init_def Let_def by (simp split: option.splits)

lemma height_named:
  "check (\<lambda>v. 0 < v) (height_k kw) = None \<Longrightarrow>
   \<exists>fs. Patient_init kw = Inl (ValidationError fs) \<and> ''height'' \<in> set fs"
  unfolding Patient_init_def Let_def by (simp split: option.splits)

lemma weight_named:
  "check (\<lambda>v. 0 < v) (weight_k kw) = None \<Longrightarrow>
   \<exists>fs. Patient_init kw = Inl (ValidationError fs) \<and> ''weight'' \<in> set fs"
  unfolding Patient_init_def Let_def by (simp split: option.splits)

lemma bmi_measured: "bmi pw (measured (height p) (weight p)) = bmi pw p"
  by (simp add: bmi_def measured_def split: sum.splits)

lemma verdict_bmi:
  "verdict pw p = (case bmi pw p of Inl e \<Rightarrow> Inl e | Inr b \<Rightarrow> Inr (bucket_table b))"
  by (simp add: verdict_def bucket_table_def split: sum.splits)

lemma model_dump_Inr:
  "model_dump pw p = Inr d \<longleftrightarrow>
     (\<exists>b. bmi pw p = Inr b \<and>
        d = \<lparr>name_s = Some (name p), city_s = Some (city p), age_s = Some (age p),
             gender_s = Some (gender p), height_s = Some (height p),
             weight_s = Some (weight p),
             bmi_s = Some b, verdict_s = Some (bucket_table b)\<rparr>)"
  by (auto simp: model_dump_def verdict_bmi split: sum.splits)

lemma model_dump_Inl: "bmi pw p = Inl e \<Longrightarrow> model_dump pw p = Inl e"
  by (simp add: model_dump_def)



lemma create_request_Inl:
  "Patient_init body = Inl e \<Longrightarrow> create_request pw body disk = (Inl e, disk)"
  by (simp add: create_request_def)



lemma delete_filter: "AList.delete k al = filter (\<lambda>kv. fst kv \<noteq> k) al"
  by (induction al) (auto simp: AList.delete_eq)

lemma set_update_subset: "set (AList.update k v al) \<subseteq> insert (k, v) (set al)"
  by (induction al) auto

lemma set_delete_subset: "set (AList.delete k al) \<subseteq> set al"
  by (simp add: delete_filter)

lemma tiny_body_init: "Patient_init tiny_body = Inr tiny_patient"
  by (simp add: Patient_init_def tiny_body_def tiny_patient_def pow2_pos)

lemma tiny_create:
  "create_request pow_correct tiny_body disk =
     (if map_of disk ''P009'' \<noteq> None
      then (Inl (HTTPException 400 ''Patient with this ID already exists''), disk)
      else (Inl ZeroDivisionError, disk))"
proof -
  have "id' tiny_patient = ''P009''"
    by (simp add: tiny_patient_def)
  then show ?thesis
    by (simp add: create_request_def tiny_body_init create_patient_def load_data_def
        model_dump_Inl tiny_bmi)
qed

subsection \<open>Derived fields\<close>




lemma bounds_ascend:
  "float_lit 18.5 < float_lit 24.9 \<and> float_lit 24.9 < Float 25 \<and> Float 25 < float_lit 29.9"
  by code_simp

text \<open>
  C2 (as the code has it). Whenever the bmi of a patient is computed, the verdict,
  computed and stored, is the bucket table applied to the rounded bmi: "Underweight"
  below 18.5, "Normal weight" from 18.5 to below 24.9, "Overweight" from 25 to below
  29.9, "Obesity" otherwise, the bounds being the floats that the literals denote; a
  bmi from 24.9 to below 25 gives "Obesity". When computing the bmi raises, which it
  does for a positive height whose square overflows or underflows to zero, computing
  the verdict raises the same error and no record is produced.
\<close>

theorem verdict_buckets:
  "(\<forall>b. bmi pw p = Inr b \<longrightarrow>
       verdict pw p = Inr (bucket_table b)
     \<and> (\<exists>d. model_dump pw p = Inr d \<and> bmi_s d = Some b
           \<and> verdict_s d = Some (bucket_table b))
     \<and> (float_lit 24.9 \<le> b \<and> b < Float 25 \<longrightarrow> verdict pw p = Inr ''Obesity''))
   \<and> (\<forall>e. bmi pw p = Inl e \<longrightarrow> verdict pw p = Inl e \<and> model_dump pw p = Inl e)"
proof (intro conjI allI impI)
  fix b assume b: "bmi pw p = Inr b"
  then show v: "verdict pw p = Inr (bucket_table b)"
    by (simp add: verdict_bmi)
  from b show "\<exists>d. model_dump pw p = Inr d \<and> bmi_s d = Some b
      \<and> verdict_s d = Some (bucket_table b)"
    by (simp add: model_dump_Inr)
  assume "float_lit 24.9 \<le> b \<and> b < Float 25"
  with bounds_ascend have "\<not> b < float_lit 18.5" "\<not> b < float_lit 24.9"
    "\<not> Float 25 \<le> b"
    by auto
  then have "bucket_table b = ''Obesity''"
    by (simp add: bucket_table_def)
  with v show "verdict pw p = Inr ''Obesity''"
    by simp
next
  fix e assume e: "bmi pw p = Inl e"
  then show "verdict pw p = Inl e"
    by (simp add: verdict_bmi)
  from e show "model_dump pw p = Inl e"
    by (rule model_dump_Inl)
qed

theorem verdict_buckets_witness:
  "bmi pow_correct gap_patient = Inr (float_lit 24.94)
   \<and> (float_lit 24.9 \<le> float_lit 24.94 \<and> float_lit 24.94 < Float 25)
   \<and> verdict pow_correct gap_patient = Inr ''Obesity''
   \<and> (\<exists>d. model_dump pow_correct gap_patient = Inr d \<and> bmi_s d = Some (float_lit 24.94)
         \<and> verdict_s d = Some (bucket_table (float_lit 24.94)))
   \<and> bmi pow_correct edge_patient = Inr (float_lit 24.9)
   \<and> (float_lit 24.9 \<le> float_lit 24.9 \<and> float_lit 24.9 < Float 25)
   \<and> verdict pow_correct edge_patient = Inr ''Obesity''
   \<and> bmi pow_correct tie_patient = Inr (float_lit 24.89)
   \<and> verdict pow_correct tie_patient = Inr (bucket_table (float_lit 24.89))
   \<and> bucket_table (float_lit 24.89) = ''Normal weight''
   \<and> list_all (\<lambda>n. bucket_table (float_lit (of_int n / 100)) = ''Obesity'')
        [2490, 2491, 2492, 2493, 2494, 2495, 2496, 2497, 2498, 2499]
   \<and> bucket_table (float_lit 25) = ''Overweight''
   \<and> bmi pow_correct tiny_patient = Inl ZeroDivisionError
   \<and> verdict pow_correct tiny_patient = Inl ZeroDivisionError
   \<and> model_dump pow_correct tiny_patient = Inl ZeroDivisionError"
proof -
  have gap: "bmi pow_correct gap_patient = Inr (float_lit 24.94)"
    by code_simp
  have in_gap: "float_lit 24.9 \<le> float_lit 24.94 \<and> float_lit 24.94 < Float 25"
    by code_simp
  have edge: "bmi pow_correct edge_patient = Inr (float_lit 24.9)"
    by code_simp
  have at_edge: "float_lit 24.9 \<le> float_lit 24.9 \<and> float_lit 24.9 < Float 25"
    by code_simp
  have tie: "bmi pow_correct tie_patient = Inr (float_lit 24.89)"
    by code_simp
  have table: "bucket_table (float_lit 24.89) = ''Normal weight''"
    "list_all (\<lambda>n. bucket_table (float_lit (of_int n / 100)) = ''Obesity'')
       [2490, 2491, 2492, 2493, 2494, 2495, 2496, 2497, 2498, 2499]"
    "bucket_table (float_lit 25) = ''Overweight''"
    by code_simp+
  note at_gap = verdict_buckets [where pw = pow_correct and p = gap_patient,
      THEN conjunct1, THEN spec, THEN mp, OF gap]
  note at_edge_patient = verdict_buckets [where pw = pow_correct and p = edge_patient,
      THEN conjunct1, THEN spec, THEN mp, OF edge]
  note at_tie = verdict_buckets [where pw = pow_correct and p = tie_patient,
      THEN conjunct1, THEN spec, THEN mp, OF tie]
  note at_tiny = verdict_buckets [where pw = pow_correct and p = tiny_patient,
      THEN conjunct2, THEN spec, THEN mp, OF tiny_bmi]
  show ?thesis
    by (intro conjI gap in_gap [THEN conjunct1] in_gap [THEN conjunct2]
        at_gap [THEN conjunct2, THEN conjunct2, THEN mp, OF in_gap]
        at_gap [THEN conjunct2, THEN conjunct1]
        edge at_edge [THEN conjunct1] at_edge [THEN conjunct2]
        at_edge_patient [THEN conjunct2, THEN conjunct2, THEN mp, OF at_edge]
        tie at_tie [THEN conjunct1] table tiny_bmi
        at_tiny [THEN conjunct1] at_tiny [THEN conjunct2])
qed

text \<open>
  C2 as the specification states it fails: the patient of height \<open>2^-600\<close> and weight 1,
  both positive floats, has no verdict, and no record of it can be produced.
\<close>

theorem verdict_not_defined:
  "is_double (height tiny_patient) \<and> is_double (weight tiny_patient)
   \<and> 0 < height tiny_patient \<and> 0 < weight tiny_patient
   \<and> verdict pow_correct tiny_patient = Inl ZeroDivisionError
   \<and> model_dump pow_correct tiny_patient = Inl ZeroDivisionError"
proof -
  have "is_double (pow2 (- 600))"
    by (rule pow2_is_double) simp_all
  then have a: "is_double (height tiny_patient)"
    by (simp add: tiny_patient_def)
  have b: "is_double (weight tiny_patient)"
    by code_simp
  have c: "0 < height tiny_patient" "0 < weight tiny_patient"
    by (simp_all add: tiny_patient_def pow2_pos)
  have d: "verdict pow_correct tiny_patient = Inl ZeroDivisionError"
    by (simp add: verdict_bmi tiny_bmi)
  have e: "model_dump pow_correct tiny_patient = Inl ZeroDivisionError"
    by (simp add: model_dump_Inl tiny_bmi)
  show ?thesis
    by (intro conjI a b c d e)
qed

subsection \<open>Validation\<close>

text \<open>
  C3 (as the code has it). Construction of a record validates its fields and fails with
  a ValidationError that names the offending field whenever age is outside the exclusive
  range (0, 120), gender is outside {male, female, other}, height <= 0 or weight <= 0;
  create then stores nothing. The class puts no constraint on the content of name and
  city: with the other fields valid, any two strings are accepted, the empty one too.
\<close>

theorem construction_validates:
  "(\<forall>a. age_k body = Val a \<and> (a \<le> 0 \<or> 120 \<le> a) \<longrightarrow>
      (\<exists>fs. Patient_init body = Inl (ValidationError fs) \<and> ''age'' \<in> set fs
         \<and> create_request pw body disk = (Inl (ValidationError fs), disk)))
   \<and> (\<forall>g. gender_k body = Val g \<and> g \<notin> {''male'', ''female'', ''other''} \<longrightarrow>
      (\<exists>fs. Patient_init body = Inl (ValidationError fs) \<and> ''gender'' \<in> set fs
         \<and> create_request pw body disk = (Inl (ValidationError fs), disk)))
   \<and> (\<forall>h. height_k body = Val h \<and> h \<le> 0 \<longrightarrow>
      (\<exists>fs. Patient_init body = Inl (ValidationError fs) \<and> ''height'' \<in> set fs
         \<and> create_request pw body disk = (Inl (ValidationError fs), disk)))
   \<and> (\<forall>w. weight_k body = Val w \<and> w \<le> 0 \<longrightarrow>
      (\<exists>fs. Patient_init body = Inl (ValidationError fs) \<and> ''weight'' \<in> set fs
         \<and> create_request pw body disk = (Inl (ValidationError fs), disk)))
   \<and> (\<forall>i n c a g h w.
        id_k body = Val i \<and> name_k body = Val n \<and> city_k body = Val c
        \<and> age_k body = Val a \<and> gender_k body = Val g \<and> height_k body = Val h
        \<and> weight_k body = Val w
        \<and> 0 < a \<and> a < 120 \<and> g \<in> {''male'', ''female'', ''other''} \<and> 0 < h \<and> 0 < w \<longrightarrow>
        Patient_init body =
          Inr \<lparr>id' = i, name = n, city = c, age = a, gender = g, height = h, weight = w\<rparr>)"
proof (intro conjI allI impI)
  fix a assume "age_k body = Val a \<and> (a \<le> 0 \<or> 120 \<le> a)"
  then have "check (\<lambda>v. 0 < v \<and> v < 120) (age_k body) = None"
    by auto
  then obtain fs where "Patient_init body = Inl (ValidationError fs)" "''age'' \<in> set fs"
    using age_named [of body] by blast
  then show "\<exists>fs. Patient_init body = Inl (ValidationError fs) \<and> ''age'' \<in> set fs
         \<and> create_request pw body disk = (Inl (ValidationError fs), disk)"
    by (auto simp: create_request_Inl)
next
  fix g assume "gender_k body = Val g \<and> g \<notin> {''male'', ''female'', ''other''}"
  then have "check (\<lambda>v. v \<in> set [''male'', ''female'', ''other'']) (gender_k body) = None"
    by auto
  then obtain fs where "Patient_init body = Inl (ValidationError fs)" "''gender'' \<in> set fs"
    using gender_named [of body] by blast
  then show "\<exists>fs. Patient_init body = Inl (ValidationError fs) \<and> ''gender'' \<in> set fs
         \<and> create_request pw body disk = (Inl (ValidationError fs), disk)"
    by (auto simp: create_request_Inl)
next
  fix h assume "height_k body = Val h \<and> h \<le> 0"
  then have "check (\<lambda>v. 0 < v) (height_k body) = None"
    by auto
  then obtain fs where "Patient_init body = Inl (ValidationError fs)" "''height'' \<in> set fs"
    using height_named [of body] by blast
  then show "\<exists>fs. Patient_init body = Inl (ValidationError fs) \<and> ''height'' \<in> set fs
         \<and> create_request pw body disk = (Inl (ValidationError fs), disk)"
    by (auto simp: create_request_Inl)
next
  fix w assume "weight_k body = Val w \<and> w \<le> 0"
  then have "check (\<lambda>v. 0 < v) (weight_k body) = None"
    by auto
  then obtain fs where "Patient_init body = Inl (ValidationError fs)" "''weight'' \<in> set fs"
    using weight_named [of body] by blast
  then show "\<exists>fs. Patient_init body = Inl (ValidationError fs) \<and> ''weight'' \<in> set fs
         \<and> create_request pw body disk = (Inl (ValidationError fs), disk)"
    by (auto simp: create_request_Inl)
next
  fix i n c a g h w
  assume "id_k body = Val i \<and> name_k body = Val n \<and> city_k body = Val c
        \<and> age_k body = Val a \<and> gender_k body = Val g \<and> height_k body = Val h
        \<and> weight_k body = Val w
        \<and> 0 < a \<and> a < 120 \<and> g \<in> {''male'', ''female'', ''other''} \<and> 0 < h \<and> 0 < w"
  then show "Patient_init body =
          Inr \<lparr>id' = i, name = n, city = c, age = a, gender = g, height = h, weight = w\<rparr>"
    by (simp add: Patient_init_Inr)
qed

theorem construction_validates_witness:
  "(\<exists>fs. Patient_init bad_body = Inl (ValidationError fs) \<and> ''age'' \<in> set fs
      \<and> create_request pow_correct bad_body example_file = (Inl (ValidationError fs), example_file))
   \<and> (\<exists>fs. Patient_init bad_body = Inl (ValidationError fs) \<and> ''gender'' \<in> set fs
      \<and> create_request pow_correct bad_body example_file = (Inl (ValidationError fs), example_file))
   \<and> (\<exists>fs. Patient_init bad_body = Inl (ValidationError fs) \<and> ''height'' \<in> set fs
      \<and> create_request pow_correct bad_body example_file = (Inl (ValidationError fs), example_file))
   \<and> (\<exists>fs. Patient_init bad_body = Inl (ValidationError fs) \<and> ''weight'' \<in> set fs
      \<and> create_request pow_correct bad_body example_file = (Inl (ValidationError fs), example_file))
   \<and> Patient_init unnamed_body =
       Inr \<lparr>id' = ''P004'', name = '''', city = '''', age = 35, gender = ''male'',
            height = 2, weight = 80\<rparr>"
proof -
  note bad = construction_validates [where pw = pow_correct and body = bad_body
      and disk = example_file]
  note good = construction_validates [where pw = pow_correct and body = unnamed_body
      and disk = example_file]
  have a: "age_k bad_body = Val 0 \<and> ((0 :: int) \<le> 0 \<or> (120 :: int) \<le> 0)"
    and g: "gender_k bad_body = Val ''unknown''
      \<and> ''unknown'' \<notin> {''male'', ''female'', ''other''}"
    and h: "height_k bad_body = Val 0 \<and> (0 :: rat) \<le> 0"
    and w: "weight_k bad_body = Val (- 1) \<and> (- 1 :: rat) \<le> 0"
    by (simp_all add: bad_body_def)
  have ok: "id_k unnamed_body = Val ''P004'' \<and> name_k unnamed_body = Val ''''
      \<and> city_k unnamed_body = Val ''''
      \<and> age_k unnamed_body = Val 35 \<and> gender_k unnamed_body = Val ''male''
      \<and> height_k unnamed_body = Val 2 \<and> weight_k unnamed_body = Val 80
      \<and> (0 :: int) < 35 \<and> (35 :: int) < 120 \<and> ''male'' \<in> {''male'', ''female'', ''other''}
      \<and> (0 :: rat) < 2 \<and> (0 :: rat) < 80"
    by (simp add: unnamed_body_def)
  have c1: "\<exists>fs. Patient_init bad_body = Inl (ValidationError fs)
      \<and> ''age'' \<in> set fs
      \<and> create_request pow_correct bad_body example_file = (Inl (ValidationError fs), example_file)"
    by (rule bad [THEN conjunct1, rule_format, OF a])
  have c2: "\<exists>fs. Patient_init bad_body = Inl (ValidationError fs)
      \<and> ''gender'' \<in> set fs
      \<and> create_request pow_correct bad_body example_file = (Inl (ValidationError fs), example_file)"
    by (rule bad [THEN conjunct2, THEN conjunct1, rule_format, OF g])
  have c3: "\<exists>fs. Patient_init bad_body = Inl (ValidationError fs)
      \<and> ''height'' \<in> set fs
      \<and> create_request pow_correct bad_body example_file = (Inl (ValidationError fs), example_file)"
    by (rule bad [THEN conjunct2, THEN conjunct2, THEN conjunct1, rule_format, OF h])
  have c4: "\<exists>fs. Patient_init bad_body = Inl (ValidationError fs)
      \<and> ''weight'' \<in> set fs
      \<and> create_request pow_correct bad_body example_file = (Inl (ValidationError fs), example_file)"
    by (rule bad [THEN conjunct2, THEN conjunct2, THEN conjunct2, THEN conjunct1,
          rule_format, OF w])
  have c5: "Patient_init unnamed_body =
       Inr \<lparr>id' = ''P004'', name = '''', city = '''', age = 35, gender = ''male'',
            height = 2, weight = 80\<rparr>"
    by (rule good [THEN conjunct2, THEN conjunct2, THEN conjunct2, THEN conjunct2,
          rule_format, OF ok])
  show ?thesis
    by (rule conjI [OF c1 conjI [OF c2 conjI [OF c3 conjI [OF c4 c5]]]])
qed

text \<open>
  C3 as the specification states it fails: a create request with an empty name and an
  empty city raises no ValidationError; it succeeds and stores the record.
\<close>

theorem empty_name_accepted:
  "create_request pow_correct unnamed_body [] =
     (Inr (JSONResponse 201 ''Patient created successfully''), [(''P004'', unnamed_record)])"
  by code_simp

subsection \<open>Update\<close>






subsection \<open>The stored records\<close>

lemma dump_valid:
  assumes "Patient_init kw = Inr p" and "model_dump pw p = Inr d"
  shows "field_constraints d \<and> derived_consistent pw d"
proof -
  from assms(2) obtain b where b: "bmi pw p = Inr b"
    and d: "d = \<lparr>name_s = Some (name p), city_s = Some (city p), age_s = Some (age p),
             gender_s = Some (gender p), height_s = Some (height p),
             weight_s = Some (weight p),
             bmi_s = Some b, verdict_s = Some (bucket_table b)\<rparr>"
    by (auto simp: model_dump_Inr)
  from b have "bmi pw (measured (height p) (weight p)) = Inr b"
    by (simp add: bmi_measured)
  then have "derived_consistent pw d"
    by (simp add: derived_consistent_def d)
  moreover from assms(1) have "field_constraints d"
    by (auto simp: Patient_init_Inr field_constraints_def d)
  ultimately show ?thesis by simp
qed

lemma create_request_store:
  "snd (create_request pw body disk) = disk
   \<or> (\<exists>p d. Patient_init body = Inr p \<and> model_dump pw p = Inr d
         \<and> snd (create_request pw body disk) = AList.update (id' p) d disk)"
  by (auto simp: create_request_def create_patient_def load_data_def save_data_def
      split: sum.splits)

lemma update_patient_store:
  "snd (update_patient pw patient_id u disk) = disk
   \<or> (\<exists>kw p d. Patient_init kw = Inr p \<and> model_dump pw p = Inr d
         \<and> snd (update_patient pw patient_id u disk) = AList.update patient_id d disk)"
  by (auto simp: update_patient_def load_data_def save_data_def
      split: sum.splits option.splits)

lemma delete_patient_store:
  "snd (delete_patient patient_id disk) = disk
   \<or> snd (delete_patient patient_id disk) = AList.delete patient_id disk"
  by (simp add: delete_patient_def load_data_def save_data_def)

lemma handle_valid:
  assumes "\<forall>kv \<in> set disk. field_constraints (snd kv) \<and> derived_consistent pw (snd kv)"
  shows "\<forall>kv \<in> set (handle pw q disk). field_constraints (snd kv) \<and> derived_consistent pw (snd kv)"
proof (cases q)
  case (Create body)
  from create_request_store [of pw body disk] show ?thesis
  proof
    assume "snd (create_request pw body disk) = disk"
    with assms Create show ?thesis by simp
  next
    assume "\<exists>p d. Patient_init body = Inr p \<and> model_dump pw p = Inr d
         \<and> snd (create_request pw body disk) = AList.update (id' p) d disk"
    then obtain p d where pd: "Patient_init body = Inr p" "model_dump pw p = Inr d"
      and st: "snd (create_request pw body disk) = AList.update (id' p) d disk"
      by blast
    from pd have "field_constraints d \<and> derived_consistent pw d"
      by (rule dump_valid)
    with assms set_update_subset [of "id' p" d disk] st Create show ?thesis
      by auto
  qed
next
  case (Update patient_id u)
  from update_patient_store [of pw patient_id u disk] show ?thesis
  proof
    assume "snd (update_patient pw patient_id u disk) = disk"
    with assms Update show ?thesis by simp
  next
    assume "\<exists>kw p d. Patient_init kw = Inr p \<and> model_dump pw p = Inr d
         \<and> snd (update_patient pw patient_id u disk) = AList.update patient_id d disk"
    then obtain kw p d where pd: "Patient_init kw = Inr p" "model_dump pw p = Inr d"
      and st: "snd (update_patient pw patient_id u disk) = AList.update patient_id d disk"
      by blast
    from pd have "field_constraints d \<and> derived_consistent pw d"
      by (rule dump_valid)
    with assms set_update_subset [of patient_id d disk] st Update show ?thesis
      by auto
  qed
next
  case (Delete patient_id)
  with assms delete_patient_store [of patient_id disk]
    set_delete_subset [of patient_id disk] show ?thesis
    by auto
qed

text \<open>
  C5 (as the code has it). If every record of the file satisfies the constraints that
  the class declares (name and city present, age in the exclusive range (0, 120), gender
  one of male, female and other, height > 0, weight > 0) and carries the bmi and verdict
  that the class computes from its height and weight, then so does every record of the
  file after any sequence of create, update and delete requests: a request whose bmi
  cannot be computed stores nothing. The empty file is such a file. The constraints do
  not include that name and city are non-empty.
\<close>

theorem stored_records_valid:
  assumes "\<forall>kv \<in> set disk. field_constraints (snd kv) \<and> derived_consistent pw (snd kv)"
  shows "(\<forall>kv \<in> set (run pw reqs disk).
            field_constraints (snd kv) \<and> derived_consistent pw (snd kv))
         \<and> (\<forall>kv \<in> set (run pw reqs []).
              field_constraints (snd kv) \<and> derived_consistent pw (snd kv))"
proof -
  have step: "\<forall>kv \<in> set (run pw reqs start).
      field_constraints (snd kv) \<and> derived_consistent pw (snd kv)"
    if "\<forall>kv \<in> set start. field_constraints (snd kv) \<and> derived_consistent pw (snd kv)"
    for start
    using that
  proof (induction reqs arbitrary: start)
    case Nil
    then show ?case by simp
  next
    case (Cons q qs)
    from Cons.prems have "\<forall>kv \<in> set (handle pw q start).
        field_constraints (snd kv) \<and> derived_consistent pw (snd kv)"
      by (rule handle_valid)
    then show ?case
      using Cons.IH by simp
  qed
  from step [OF assms] step [of "[]"] show ?thesis
    by simp
qed

theorem stored_records_valid_witness:
  "list_all (\<lambda>kv. field_constraints (snd kv) \<and> derived_consistent pow_correct (snd kv))
     example_file
   \<and> create_request pow_correct tiny_body
         [(''P001'', asha), (''P002'', ravi), (''P003'', meera), (''P004'', unnamed_record)]
       = (Inl ZeroDivisionError,
          [(''P001'', asha), (''P002'', ravi), (''P003'', meera), (''P004'', unnamed_record)])
   \<and> run pow_correct
         [Create unnamed_body, Create tiny_body, Update ''P001'' weight_only, Delete ''P002'']
         example_file
       = [(''P001'', asha_72), (''P003'', meera), (''P004'', unnamed_record)]
   \<and> list_all (\<lambda>kv. field_constraints (snd kv) \<and> derived_consistent pow_correct (snd kv))
       [(''P001'', asha_72), (''P003'', meera), (''P004'', unnamed_record)]"
proof -
  let ?reqs = "[Create unnamed_body, Create tiny_body, Update ''P001'' weight_only,
      Delete ''P002'']"
  let ?mid = "[(''P001'', asha), (''P002'', ravi), (''P003'', meera),
      (''P004'', unnamed_record)]"
  have start: "\<forall>kv \<in> set example_file.
      field_constraints (snd kv) \<and> derived_consistent pow_correct (snd kv)"
    by code_simp
  have first: "handle pow_correct (Create unnamed_body) example_file = ?mid"
    by code_simp
  have refused: "create_request pow_correct tiny_body ?mid = (Inl ZeroDivisionError, ?mid)"
    by (simp add: tiny_create)
  then have second: "handle pow_correct (Create tiny_body) ?mid = ?mid"
    by simp
  have rest: "run pow_correct [Update ''P001'' weight_only, Delete ''P002''] ?mid
      = [(''P001'', asha_72), (''P003'', meera), (''P004'', unnamed_record)]"
    by code_simp
  have unfolded: "run pow_correct ?reqs example_file
      = run pow_correct [Update ''P001'' weight_only, Delete ''P002'']
          (handle pow_correct (Create tiny_body)
            (handle pow_correct (Create unnamed_body) example_file))"
    by (simp only: run.simps)
  have result: "run pow_correct ?reqs example_file
      = [(''P001'', asha_72), (''P003'', meera), (''P004'', unnamed_record)]"
    by (simp only: unfolded first second rest)
  from stored_records_valid [OF start, where reqs = ?reqs]
  have "\<forall>kv \<in> set (run pow_correct ?reqs example_file).
      field_constraints (snd kv) \<and> derived_consistent pow_correct (snd kv)"
    by (rule conjunct1)
  with start refused result show ?thesis
    by (simp only: list_all_iff simp_thms)
qed

text \<open>
  C5 as the specification states it fails: after one create request on the empty file,
  the file holds a record whose name and city are empty, against the field constraints
  of the specification.
\<close>

theorem empty_name_persisted:
  "run pow_correct [Create unnamed_body] [] = [(''P004'', unnamed_record)]
   \<and> \<not> spec_field_constraints unnamed_record"
  by code_simp

subsection \<open>Errors that leave the file alone\<close>

text \<open>
  C6. Creating a patient whose identifier is already a key of the file raises the
  HTTP 400 exception "Patient with this ID already exists" (the ConflictError of the
  specification), and the file is what it was: nothing is saved. This holds for the
  endpoint and for the request whose body validates to that patient.
\<close>

theorem create_conflict:
  assumes "id' patient \<in> fst ` set disk"
  shows "create_patient pw patient disk =
           (Inl (HTTPException 400 ''Patient with this ID already exists''), disk)
         \<and> (Patient_init body = Inr patient \<longrightarrow>
              create_request pw body disk =
                (Inl (HTTPException 400 ''Patient with this ID already exists''), disk))"
  using assms
  by (simp add: create_request_def create_patient_def load_data_def map_of_eq_None_iff)

theorem create_conflict_witness:
  "id' example_patient \<in> fst ` set example_file
   \<and> Patient_init
         \<lparr>id_k = Val ''P001'', name_k = Val ''Asha'', city_k = Val ''Pune'',
          age_k = Val 30, gender_k = Val ''female'', height_k = Val 1.5,
          weight_k = Val 54, bmi_k = Absent, verdict_k = Absent\<rparr> = Inr example_patient
   \<and> create_patient pow_correct example_patient example_file =
       (Inl (HTTPException 400 ''Patient with this ID already exists''), example_file)
   \<and> create_request pow_correct
         \<lparr>id_k = Val ''P001'', name_k = Val ''Asha'', city_k = Val ''Pune'',
          age_k = Val 30, gender_k = Val ''female'', height_k = Val 1.5,
          weight_k = Val 54, bmi_k = Absent, verdict_k = Absent\<rparr> example_file =
       (Inl (HTTPException 400 ''Patient with this ID already exists''), example_file)"
proof -
  let ?body = "\<lparr>id_k = Val ''P001'', name_k = Val ''Asha'', city_k = Val ''Pune'',
      age_k = Val 30, gender_k = Val ''female'', height_k = Val 1.5,
      weight_k = Val 54, bmi_k = Absent, verdict_k = Absent\<rparr>"
  have present: "id' example_patient \<in> fst ` set example_file"
    by (simp add: example_patient_def example_file_def)
  have valid: "Patient_init ?body = Inr example_patient"
    by code_simp
  note inst = create_conflict [OF present, where pw = pow_correct and body = ?body]
  from inst [THEN conjunct1] inst [THEN conjunct2, rule_format, OF valid] present valid
  show ?thesis
    by (intro conjI)
qed

text \<open>
  C7. For an identifier that is no key of the file, reading one patient, updating and
  deleting each raise the HTTP 404 exception "Patient not found" (the NotFoundError of
  the specification), and the file is what it was: no save is performed.
\<close>

theorem not_found_unchanged:
  assumes "patient_id \<notin> fst ` set disk"
  shows "view_patient patient_id disk =
           (Inl (HTTPException 404 ''Patient not found''), disk)
         \<and> update_patient pw patient_id patient_update disk =
           (Inl (HTTPException 404 ''Patient not found''), disk)
         \<and> delete_patient patient_id disk =
           (Inl (HTTPException 404 ''Patient not found''), disk)"
  using assms
  by (simp add: view_patient_def update_patient_def delete_patient_def load_data_def
      map_of_eq_None_iff[THEN iffD2])

theorem not_found_unchanged_witness:
  "''P009'' \<notin> fst ` set example_file
   \<and> view_patient ''P009'' example_file =
       (Inl (HTTPException 404 ''Patient not found''), example_file)
   \<and> update_patient pow_correct ''P009'' weight_only example_file =
       (Inl (HTTPException 404 ''Patient not found''), example_file)
   \<and> delete_patient ''P009'' example_file =
       (Inl (HTTPException 404 ''Patient not found''), example_file)"
proof -
  have absent: "''P009'' \<notin> fst ` set example_file"
    by (simp add: example_file_def)
  from absent not_found_unchanged [OF absent, where pw = pow_correct
      and patient_update = weight_only] show ?thesis
    by (rule conjI)
qed

subsection \<open>Sort\<close>

lemma py_sorted_mset: "mset (py_sorted key reverse xs) = mset xs"
  by (simp add: py_sorted_def)





lemma relabel_values: "snd \<circ> (\<lambda>(k, v). (f k, v)) = snd"
  by (simp add: fun_eq_iff)



text \<open>
  C9. The sort returns the stored field objects only: its output is the same whatever
  the identifiers of the file are (renaming them by any function changes nothing), and
  a successful output holds exactly the values of the file, so it does not say which
  record carries which identifier.
\<close>

theorem sort_patient_no_ids:
  "fst (sort_patient sort_by order_q (map (\<lambda>(k, v). (f k, v)) disk))
     = fst (sort_patient sort_by order_q disk)
   \<and> (case fst (sort_patient sort_by order_q disk) of
         Inr ys \<Rightarrow> mset ys = mset (map snd disk)
       | Inl e \<Rightarrow> True)"
  by (simp add: sort_patient_def load_data_def Let_def py_sorted_mset relabel_values)

theorem sort_patient_no_ids_witness:
  "fst (sort_patient ''height'' None (map (\<lambda>(k, v). (''X'' @ k, v)) example_file))
     = fst (sort_patient ''height'' None example_file)
   \<and> fst (sort_patient ''height'' None example_file) = Inr [asha, meera, ravi]
   \<and> mset [asha, meera, ravi] = mset (map snd example_file)"
proof -
  have result: "fst (sort_patient ''height'' None example_file) = Inr [asha, meera, ravi]"
    by code_simp
  from sort_patient_no_ids [where sort_by = "''height''" and order_q = None
      and f = "\<lambda>k. ''X'' @ k" and disk = example_file] result
  show ?thesis
    by simp
qed

subsection \<open>Delete\<close>

text \<open>
  C10. Deleting an identifier that is a key of the file succeeds and removes that entry
  only: the file afterwards is the old one without the entry under that key, in the old
  order, so every other identifier is still present with the record it had.
\<close>

theorem delete_exactly_one:
  assumes "patient_id \<in> fst ` set disk"
  shows "\<exists>disk'. delete_patient patient_id disk =
           (Inr (JSONResponse 200 ''Patient deleted successfully''), disk')
         \<and> disk' = filter (\<lambda>kv. fst kv \<noteq> patient_id) disk
         \<and> map_of disk' patient_id = None
         \<and> (\<forall>k. k \<noteq> patient_id \<longrightarrow> map_of disk' k = map_of disk k)"
proof -
  let ?disk' = "AList.delete patient_id disk"
  from assms have "map_of disk patient_id \<noteq> None"
    by (simp add: map_of_eq_None_iff)
  then have run: "delete_patient patient_id disk =
      (Inr (JSONResponse 200 ''Patient deleted successfully''), ?disk')"
    by (simp add: delete_patient_def load_data_def save_data_def)
  have lookup: "map_of ?disk' = (map_of disk)(patient_id := None)"
    by (rule delete_conv')
  show ?thesis
    using run lookup by (simp add: delete_filter)
qed

theorem delete_exactly_one_witness:
  "''P002'' \<in> fst ` set example_file
   \<and> delete_patient ''P002'' example_file =
       (Inr (JSONResponse 200 ''Patient deleted successfully''),
        [(''P001'', asha), (''P003'', meera)])
   \<and> (\<exists>disk'. delete_patient ''P002'' example_file =
          (Inr (JSONResponse 200 ''Patient deleted successfully''), disk')
        \<and> disk' = filter (\<lambda>kv. fst kv \<noteq> ''P002'') example_file
        \<and> map_of disk' ''P002'' = None
        \<and> (\<forall>k. k \<noteq> ''P002'' \<longrightarrow> map_of disk' k = map_of example_file k))"
proof -
  have present: "''P002'' \<in> fst ` set example_file"
    by (simp add: example_file_def)
  have result: "delete_patient ''P002'' example_file =
      (Inr (JSONResponse 200 ''Patient deleted successfully''),
       [(''P001'', asha), (''P003'', meera)])"
    by code_simp
  show ?thesis
    by (rule conjI [OF present conjI [OF result delete_exactly_one [OF present]]])
qed
end
